theory Spec2Isabelle
  imports Complex_Main
begin

section \<open>Feature interpretation with the GapEncoder: the example script\<close>

text \<open>
  The development follows \<^verbatim>\<open>examples/02_investigating_dirty_categories.py\<close>: a
  feature table is fetched, two job-title columns are merged, the merged column is encoded
  by a \<^verbatim>\<open>GapEncoder\<close>, the topics are printed and a sample of twenty rows is drawn as a
  heat map. Every statement of the script is a definition below; what the script calls in
  other libraries is written out for the calls the script makes.
\<close>

subsection \<open>Errors and their propagation\<close>

text \<open>
  The script has no \<^verbatim>\<open>try\<close>: an exception raised by any call ends it. A call that may raise
  returns \<open>error + 'a\<close>, and \<open>and_then\<close> sequences two such calls the way two consecutive
  statements are sequenced. \<open>ValueError a b\<close> is the \<^verbatim>\<open>ValueError\<close> of the plotting library
  for \<open>a\<close> tick positions that were given \<open>b\<close> labels.
\<close>

datatype error =
    KeyError string
  | NotFittedError
  | ValueError nat nat
  | Raised string

definition and_then :: "error + 'a \<Rightarrow> ('a \<Rightarrow> error + 'b) \<Rightarrow> error + 'b" where
  "and_then m f = (case m of Inl e \<Rightarrow> Inl e | Inr v \<Rightarrow> f v)"

subsection \<open>The feature table\<close>

text \<open>
  A cell is a string or missing (\<^verbatim>\<open>None\<close>/\<^verbatim>\<open>NaN\<close>). A series is the list of the cells of one
  column, row 0 first. A frame has a row index \<open>0..<nrows\<close> and named columns in order.
\<close>

type_synonym cell = "string option"
type_synonym series = "cell list"

record frame =
  nrows :: nat
  cols :: "(string \<times> series) list"

definition column_names :: "frame \<Rightarrow> string list" where
  "column_names X = map fst (cols X)"

text \<open>A frame as the dataset provider gives it: distinct column names, one cell per row.\<close>

definition wf_frame :: "frame \<Rightarrow> bool" where
  "wf_frame X \<longleftrightarrow>
     distinct (column_names X) \<and> list_all (\<lambda>(n, c). length c = nrows X) (cols X)"

text \<open>
  \<^verbatim>\<open>X[name]\<close>: the column, or \<^verbatim>\<open>KeyError\<close>. This is the read of a table whose column names
  are distinct, as \<open>wf_frame\<close> asks; where several columns carry the name, pandas returns
  a frame and not a series, which this definition does not describe.
\<close>

definition getitem :: "frame \<Rightarrow> string \<Rightarrow> error + series" where
  "getitem X name =
     (case map_of (cols X) name of None \<Rightarrow> Inl (KeyError name) | Some s \<Rightarrow> Inr s)"

text \<open>
  \<^verbatim>\<open>s.fillna(other)\<close>: the result has the rows of \<open>s\<close>; a missing cell of \<open>s\<close> takes the
  cell of \<open>other\<close> in the same row, a present cell of \<open>s\<close> stays.
\<close>

fun fillna :: "series \<Rightarrow> series \<Rightarrow> series" where
  "fillna [] other = []"
| "fillna (v # vs) [] = v # fillna vs []"
| "fillna (v # vs) (w # ws) = (case v of None \<Rightarrow> w | Some a \<Rightarrow> Some a) # fillna vs ws"

text \<open>
  \<^verbatim>\<open>X[name] = s\<close>: the series is aligned with the frame's row index, then it replaces the
  column of that name where it stands, or becomes the last column.
\<close>

definition reindex :: "nat \<Rightarrow> series \<Rightarrow> series" where
  "reindex n s = map (\<lambda>i. if i < length s then s ! i else None) [0..<n]"

fun assign :: "string \<Rightarrow> series \<Rightarrow> (string \<times> series) list \<Rightarrow> (string \<times> series) list" where
  "assign name s [] = [(name, s)]"
| "assign name s ((n, c) # rest) =
     (if n = name then (name, s) # rest else (n, c) # assign name s rest)"

definition setitem :: "frame \<Rightarrow> string \<Rightarrow> series \<Rightarrow> frame" where
  "setitem X name s = X\<lparr>cols := assign name (reindex (nrows X) s) (cols X)\<rparr>"

text \<open>
  \<^verbatim>\<open>X.drop(labels=..., axis="columns", inplace=True)\<close>: \<^verbatim>\<open>KeyError\<close> when a label is no
  column, else the columns with these names are removed.
\<close>

definition drop_columns :: "frame \<Rightarrow> string list \<Rightarrow> error + frame" where
  "drop_columns X labels =
     (case filter (\<lambda>l. l \<notin> set (column_names X)) labels of
        [] \<Rightarrow> Inr (X\<lparr>cols := filter (\<lambda>(n, c). n \<notin> set labels) (cols X)\<rparr>)
      | l # _ \<Rightarrow> Inl (KeyError l))"

subsection \<open>Preprocessing (lines 40 to 43)\<close>

text \<open>
  \<^verbatim>\<open>X["employee_position_title"] = X["underfilled_job_title"].fillna(
      X["employee_position_title"])\<close>
  \<^verbatim>\<open>X.drop(labels=["underfilled_job_title"], axis="columns", inplace=True)\<close>
\<close>

definition preprocess :: "frame \<Rightarrow> error + frame" where
  "preprocess X =
     and_then (getitem X ''underfilled_job_title'') (\<lambda>secondary.
     and_then (getitem X ''employee_position_title'') (\<lambda>primary.
     drop_columns
       (setitem X ''employee_position_title'' (fillna secondary primary))
       [''underfilled_job_title'']))"

text \<open>
  The table of the specification's example, with one more column and one more row: the
  primary column is missing in row 1, the secondary column in row 2.
\<close>

definition example_table :: frame where
  "example_table =
     \<lparr>nrows = 3,
      cols = [(''department'', [Some ''POL'', Some ''FRS'', Some ''HHS'']),
              (''employee_position_title'', [Some ''Manager'', None, Some ''Clerk'']),
              (''underfilled_job_title'', [Some ''Sr. Manager'', Some ''Firefighter'', None])]\<rparr>"

text \<open>The same table after the preprocessing.\<close>

definition example_merged :: frame where
  "example_merged =
     \<lparr>nrows = 3,
      cols = [(''department'', [Some ''POL'', Some ''FRS'', Some ''HHS'']),
              (''employee_position_title'',
               [Some ''Sr. Manager'', Some ''Firefighter'', Some ''Clerk''])]\<rparr>"

text \<open>
  \<^verbatim>\<open>X[[name, ...]]\<close>: the frame of the named columns, in the order asked for, or
  \<^verbatim>\<open>KeyError\<close>.
\<close>

fun select_columns :: "frame \<Rightarrow> string list \<Rightarrow> error + (string \<times> series) list" where
  "select_columns X [] = Inr []"
| "select_columns X (l # ls) =
     and_then (getitem X l) (\<lambda>s.
     and_then (select_columns X ls) (\<lambda>rest. Inr ((l, s) # rest)))"

definition getitem_list :: "frame \<Rightarrow> string list \<Rightarrow> error + frame" where
  "getitem_list X names = and_then (select_columns X names) (\<lambda>cs. Inr (X\<lparr>cols := cs\<rparr>))"

text \<open>\<^verbatim>\<open>X[:k]\<close>: the first \<open>k\<close> rows, or all of them when there are fewer.\<close>

definition slice_rows :: "nat \<Rightarrow> frame \<Rightarrow> frame" where
  "slice_rows k X = \<lparr>nrows = min k (nrows X), cols = map (\<lambda>(n, c). (n, take k c)) (cols X)\<rparr>"

text \<open>\<^verbatim>\<open>X.to_numpy()\<close>: one list of cells per row; \<^verbatim>\<open>.flatten()\<close>: the rows one after another.\<close>

definition to_numpy :: "frame \<Rightarrow> cell list list" where
  "to_numpy X =
     map (\<lambda>i. map (\<lambda>(n, c). if i < length c then c ! i else None) (cols X)) [0..<nrows X]"

definition flatten :: "'a list list \<Rightarrow> 'a list" where
  "flatten rows = concat rows"

subsection \<open>The encoder\<close>

text \<open>
  Modelled from the spec: the numerical core of \<^verbatim>\<open>GapEncoder\<close> (the class is part of this
  library, its source is not among the files of the example). The specification leaves the
  factorisation and the ranking of labels open; they are the three functions of this
  record. \<open>factorize n seed rows\<close> is the fit of \<open>n\<close> topics on the training rows, every
  stochastic initialisation being drawn from \<open>seed\<close>; it may raise. \<open>activation m row t\<close>
  is the score of one row on topic \<open>t\<close>; \<open>ranked_label m t r\<close> is the label of rank
  \<open>r\<close> for topic \<open>t\<close>.
\<close>

record 'm gap_internals =
  factorize :: "nat \<Rightarrow> int \<Rightarrow> cell list list \<Rightarrow> error + 'm"
  activation :: "'m \<Rightarrow> cell list \<Rightarrow> nat \<Rightarrow> real"
  ranked_label :: "'m \<Rightarrow> nat \<Rightarrow> nat \<Rightarrow> string"

text \<open>
  Modelled from the spec: the encoder object, constructed with the configuration
  \<^verbatim>\<open>{n_components, random_state}\<close>; \<open>fitted\<close> is what a fit leaves in it.
\<close>

record 'm gap_encoder =
  n_components :: nat
  random_state :: int
  fitted :: "'m option"

text \<open>Modelled from the spec: the constructor \<^verbatim>\<open>GapEncoder(n_components=..., random_state=...)\<close>.\<close>

definition GapEncoder :: "nat \<Rightarrow> int \<Rightarrow> 'm gap_encoder" where
  "GapEncoder n seed = \<lparr>n_components = n, random_state = seed, fitted = None\<rparr>"

text \<open>
  Modelled from the spec: the encoded matrix of \<^verbatim>\<open>GapEncoder\<close>, one row per input
  observation and one column per latent topic.
\<close>

definition encode_rows :: "'m gap_internals \<Rightarrow> nat \<Rightarrow> 'm \<Rightarrow> frame \<Rightarrow> real list list" where
  "encode_rows G k m X = map (\<lambda>row. map (activation G m row) [0..<k]) (to_numpy X)"

text \<open>
  Modelled from the spec: \<^verbatim>\<open>GapEncoder.fit_transform(column) -> encoded matrix\<close>; the fit
  replaces whatever an earlier fit left in the object.
\<close>

definition fit_transform ::
  "'m gap_internals \<Rightarrow> 'm gap_encoder \<Rightarrow> frame \<Rightarrow> error + ('m gap_encoder \<times> real list list)" where
  "fit_transform G enc X =
     and_then (factorize G (n_components enc) (random_state enc) (to_numpy X)) (\<lambda>m.
     Inr (enc\<lparr>fitted := Some m\<rparr>, encode_rows G (n_components enc) m X))"

text \<open>
  Modelled from the spec: \<^verbatim>\<open>GapEncoder.transform(column) -> encoded matrix\<close>, which raises
  when the encoder was not fit before.
\<close>

definition transform ::
  "'m gap_internals \<Rightarrow> 'm gap_encoder \<Rightarrow> frame \<Rightarrow> error + real list list" where
  "transform G enc X =
     (case fitted enc of
        None \<Rightarrow> Inl NotFittedError
      | Some m \<Rightarrow> Inr (encode_rows G (n_components enc) m X))"

text \<open>
  Modelled from the spec: \<^verbatim>\<open>GapEncoder.get_feature_names_out(n_labels)\<close>, the specification's
  \<^verbatim>\<open>label_summary(labels_per_topic)\<close>: one label-group per topic, in topic order, each the
  labels of rank \<open>0\<close> to \<open>n_labels - 1\<close>; it raises when the encoder was not fit before.
\<close>

definition get_feature_names_out ::
  "'m gap_internals \<Rightarrow> 'm gap_encoder \<Rightarrow> nat \<Rightarrow> error + string list list" where
  "get_feature_names_out G enc n_labels =
     (case fitted enc of
        None \<Rightarrow> Inl NotFittedError
      | Some m \<Rightarrow>
          Inr (map (\<lambda>t. map (ranked_label G m t) [0..<n_labels]) [0..<n_components enc]))"

subsection \<open>The other collaborators\<close>

text \<open>What \<^verbatim>\<open>fetch_employee_salaries()\<close> returns.\<close>

record dataset =
  ds_X :: frame
  ds_y :: series
  ds_description :: string

text \<open>
  What the script hands to \<^verbatim>\<open>matplotlib.pyplot\<close> (lines 96 to 103); the keyword arguments
  that only style the text (\<^verbatim>\<open>size\<close>, \<^verbatim>\<open>rotation\<close>, \<^verbatim>\<open>ha\<close>) are left out.
\<close>

record figure =
  figsize :: "nat \<times> nat"
  imshow :: "real list list"
  xlabel :: string
  xticks_ticks :: "nat list"
  xticks_labels :: "string list list"
  ylabel :: string
  yticks_ticks :: "nat list"
  yticks_labels :: "cell list"
  colorbar_label :: string

text \<open>
  The calls whose result the script cannot compute itself: the dataset provider, the text
  Python's \<^verbatim>\<open>str\<close> gives for a label-group inside the f-string, and the plotting library,
  which draws the figure or raises.
\<close>

record collaborators =
  fetch_employee_salaries :: "error + dataset"
  str_labels :: "string list \<Rightarrow> string"
  pyplot :: "figure \<Rightarrow> error + unit"

text \<open>
  What matplotlib does with the tick arguments of lines 99 and 101: \<^verbatim>\<open>plt.xticks(ticks,
  labels=...)\<close> and \<^verbatim>\<open>plt.yticks(ticks, labels=...)\<close> fix the tick positions and then set
  their labels, and setting labels raises \<^verbatim>\<open>ValueError\<close> when labels are given and their
  number is not the number of positions. The horizontal axis is set first, as in the script.
\<close>

definition set_ticklabels :: "nat list \<Rightarrow> 'a list \<Rightarrow> error + unit" where
  "set_ticklabels ticks labels =
     (if labels \<noteq> [] \<and> length ticks \<noteq> length labels
      then Inl (ValueError (length ticks) (length labels))
      else Inr ())"

definition matplotlib_pyplot :: "figure \<Rightarrow> error + unit" where
  "matplotlib_pyplot fig =
     and_then (set_ticklabels (xticks_ticks fig) (xticks_labels fig)) (\<lambda>_.
     set_ticklabels (yticks_ticks fig) (yticks_labels fig))"

subsection \<open>Reporting the topics (lines 82 to 84)\<close>

text \<open>\<^verbatim>\<open>str(k)\<close> for a non-negative \<^verbatim>\<open>int\<close>: its decimal digits.\<close>

fun str_nat :: "nat \<Rightarrow> string" where
  "str_nat k =
     (if k < 10 then [''0123456789'' ! k]
      else str_nat (k div 10) @ [''0123456789'' ! (k mod 10)])"

declare str_nat.simps [simp del]

text \<open>
  \<^verbatim>\<open>f"Topic n\<degree>{k}: {labels}"\<close>; the degree sign is the code point \<open>0xB0\<close>.
\<close>

definition topic_line :: "(string list \<Rightarrow> string) \<Rightarrow> nat \<Rightarrow> string list \<Rightarrow> string" where
  "topic_line str k labels = ''Topic n'' @ [CHR 0xB0] @ str_nat k @ '': '' @ str labels"

text \<open>
  \<^verbatim>\<open>for k, labels in enumerate(topic_labels): print(...)\<close>; the standard output is the list
  of the lines printed so far.
\<close>

fun print_topics ::
  "(string list \<Rightarrow> string) \<Rightarrow> (nat \<times> string list) list \<Rightarrow> string list \<Rightarrow> string list" where
  "print_topics str [] out = out"
| "print_topics str ((k, labels) # rest) out =
     print_topics str rest (out @ [topic_line str k labels])"

subsection \<open>Drawing the activations (lines 95 to 104)\<close>

definition visualize ::
  "'m gap_internals \<Rightarrow> 'm gap_encoder \<Rightarrow> string list list \<Rightarrow> frame \<Rightarrow> error + figure" where
  "visualize G enc topic_labels X_dirty =
     and_then (transform G enc (slice_rows 20 X_dirty)) (\<lambda>encoded_labels.
     Inr \<lparr>figsize = (8, 10),
          imshow = encoded_labels,
          xlabel = ''Latent topics'',
          xticks_ticks = [0..<10],
          xticks_labels = topic_labels,
          ylabel = ''Data entries'',
          yticks_ticks = [0..<20],
          yticks_labels = flatten (to_numpy (slice_rows 20 X_dirty)),
          colorbar_label = ''Topic activations''\<rparr>)"

subsection \<open>The script\<close>

text \<open>The module's variables when the script has run to its end.\<close>

record 'm globals =
  v_X :: frame
  v_y :: series
  v_X_dirty :: frame
  v_enc :: "'m gap_encoder"
  v_X_enc :: "real list list"
  v_topic_labels :: "string list list"
  v_stdout :: "string list"
  v_figure :: figure

definition script :: "collaborators \<Rightarrow> 'm gap_internals \<Rightarrow> error + 'm globals" where
  "script C G =
     and_then (fetch_employee_salaries C) (\<lambda>dataset.
     and_then (preprocess (ds_X dataset)) (\<lambda>X.
     and_then (getitem_list X [''employee_position_title'']) (\<lambda>X_dirty.
     and_then (fit_transform G (GapEncoder 10 42) X_dirty) (\<lambda>(enc, X_enc).
     and_then (get_feature_names_out G enc 3) (\<lambda>topic_labels.
     and_then (visualize G enc topic_labels X_dirty) (\<lambda>fig.
     and_then (pyplot C fig) (\<lambda>_.
     Inr \<lparr>v_X = X, v_y = ds_y dataset, v_X_dirty = X_dirty, v_enc = enc, v_X_enc = X_enc,
          v_topic_labels = topic_labels,
          v_stdout = print_topics (str_labels C) (List.enumerate 0 topic_labels) [],
          v_figure = fig\<rparr>)))))))"

subsection \<open>Concrete inputs\<close>

text \<open>
  A stand-in for the encoder's numerical core: the fit keeps the training rows, a row is
  active on topic 0 only, and the label of rank \<open>r\<close> for topic \<open>t\<close> is \<open>t.r\<close>.
\<close>

definition stub_internals :: "cell list list gap_internals" where
  "stub_internals =
     \<lparr>factorize = (\<lambda>n seed rows. Inr rows),
      activation = (\<lambda>m row t. if t = 0 then 1 else 0),
      ranked_label = (\<lambda>m t r. str_nat t @ ''.'' @ str_nat r)\<rparr>"

definition example_dataset :: dataset where
  "example_dataset =
     \<lparr>ds_X = example_table, ds_y = [Some ''100'', Some ''200'', Some ''300''],
      ds_description = ''employee salaries''\<rparr>"

text \<open>A rendering of a label-group: its labels, separated by commas.\<close>

fun comma_join :: "string list \<Rightarrow> string" where
  "comma_join [] = []"
| "comma_join [l] = l"
| "comma_join (l # ls) = l @ '', '' @ comma_join ls"

definition example_collaborators :: collaborators where
  "example_collaborators =
     \<lparr>fetch_employee_salaries = Inr example_dataset,
      str_labels = comma_join,
      pyplot = (\<lambda>fig. Inr ())\<rparr>"

text \<open>A dataset provider that raises.\<close>

definition failing_collaborators :: collaborators where
  "failing_collaborators =
     example_collaborators\<lparr>fetch_employee_salaries := Inl (Raised ''dataset not found'')\<rparr>"

text \<open>What the script leaves when it runs on the example with the stand-in encoder.\<close>

definition example_dirty :: frame where
  "example_dirty =
     \<lparr>nrows = 3,
      cols = [(''employee_position_title'',
               [Some ''Sr. Manager'', Some ''Firefighter'', Some ''Clerk''])]\<rparr>"

definition example_encoder :: "cell list list gap_encoder" where
  "example_encoder =
     \<lparr>n_components = 10, random_state = 42,
      fitted = Some [[Some ''Sr. Manager''], [Some ''Firefighter''], [Some ''Clerk'']]\<rparr>"

definition example_labels :: "string list list" where
  "example_labels =
     [[''0.0'', ''0.1'', ''0.2''], [''1.0'', ''1.1'', ''1.2''], [''2.0'', ''2.1'', ''2.2''],
      [''3.0'', ''3.1'', ''3.2''], [''4.0'', ''4.1'', ''4.2''], [''5.0'', ''5.1'', ''5.2''],
      [''6.0'', ''6.1'', ''6.2''], [''7.0'', ''7.1'', ''7.2''], [''8.0'', ''8.1'', ''8.2''],
      [''9.0'', ''9.1'', ''9.2'']]"

definition example_lines :: "string list" where
  "example_lines =
     [''Topic n'' @ [CHR 0xB0] @ ''0: 0.0, 0.1, 0.2'',
      ''Topic n'' @ [CHR 0xB0] @ ''1: 1.0, 1.1, 1.2'',
      ''Topic n'' @ [CHR 0xB0] @ ''2: 2.0, 2.1, 2.2'',
      ''Topic n'' @ [CHR 0xB0] @ ''3: 3.0, 3.1, 3.2'',
      ''Topic n'' @ [CHR 0xB0] @ ''4: 4.0, 4.1, 4.2'',
      ''Topic n'' @ [CHR 0xB0] @ ''5: 5.0, 5.1, 5.2'',
      ''Topic n'' @ [CHR 0xB0] @ ''6: 6.0, 6.1, 6.2'',
      ''Topic n'' @ [CHR 0xB0] @ ''7: 7.0, 7.1, 7.2'',
      ''Topic n'' @ [CHR 0xB0] @ ''8: 8.0, 8.1, 8.2'',
      ''Topic n'' @ [CHR 0xB0] @ ''9: 9.0, 9.1, 9.2'']"

definition example_figure :: figure where
  "example_figure =
     \<lparr>figsize = (8, 10),
      imshow = replicate 3 [1, 0, 0, 0, 0, 0, 0, 0, 0, 0],
      xlabel = ''Latent topics'',
      xticks_ticks = [0, 1, 2, 3, 4, 5, 6, 7, 8, 9],
      xticks_labels = example_labels,
      ylabel = ''Data entries'',
      yticks_ticks = [0, 1, 2, 3, 4, 5, 6, 7, 8, 9, 10, 11, 12, 13, 14, 15, 16, 17, 18, 19],
      yticks_labels = [Some ''Sr. Manager'', Some ''Firefighter'', Some ''Clerk''],
      colorbar_label = ''Topic activations''\<rparr>"

definition example_globals :: "cell list list globals" where
  "example_globals =
     \<lparr>v_X = example_merged, v_y = [Some ''100'', Some ''200'', Some ''300''],
      v_X_dirty = example_dirty,
      v_enc = example_encoder,
      v_X_enc = replicate 3 [1, 0, 0, 0, 0, 0, 0, 0, 0, 0],
      v_topic_labels = example_labels,
      v_stdout = example_lines,
      v_figure = example_figure\<rparr>"

text \<open>
  A feature table of fifteen rows and one of twenty, each with matplotlib as the plotting
  library.
\<close>

definition fifteen_table :: frame where
  "fifteen_table =
     \<lparr>nrows = 15,
      cols = [(''employee_position_title'', replicate 15 (Some ''Manager'')),
              (''underfilled_job_title'', replicate 15 None)]\<rparr>"

definition fifteen_collaborators :: collaborators where
  "fifteen_collaborators =
     \<lparr>fetch_employee_salaries =
        Inr \<lparr>ds_X = fifteen_table, ds_y = replicate 15 (Some ''100''),
             ds_description = ''employee salaries''\<rparr>,
      str_labels = comma_join,
      pyplot = matplotlib_pyplot\<rparr>"

definition twenty_table :: frame where
  "twenty_table =
     \<lparr>nrows = 20,
      cols = [(''employee_position_title'', replicate 20 (Some ''Manager'')),
              (''underfilled_job_title'', replicate 20 None)]\<rparr>"

definition twenty_collaborators :: collaborators where
  "twenty_collaborators =
     \<lparr>fetch_employee_salaries =
        Inr \<lparr>ds_X = twenty_table, ds_y = replicate 20 (Some ''100''),
             ds_description = ''employee salaries''\<rparr>,
      str_labels = comma_join,
      pyplot = matplotlib_pyplot\<rparr>"

text \<open>
  The dirty column of the fifteen-row table, the encoder the script has fit on it, and what
  the script hands to the plotting library for them.
\<close>

definition fifteen_rows :: frame where
  "fifteen_rows =
     \<lparr>nrows = 15, cols = [(''employee_position_title'', replicate 15 (Some ''Manager''))]\<rparr>"

definition fifteen_encoder :: "cell list list gap_encoder" where
  "fifteen_encoder =
     \<lparr>n_components = 10, random_state = 42, fitted = Some (to_numpy fifteen_rows)\<rparr>"

definition fifteen_figure :: figure where
  "fifteen_figure =
     \<lparr>figsize = (8, 10),
      imshow = replicate 15 [1, 0, 0, 0, 0, 0, 0, 0, 0, 0],
      xlabel = ''Latent topics'',
      xticks_ticks = [0, 1, 2, 3, 4, 5, 6, 7, 8, 9],
      xticks_labels = example_labels,
      ylabel = ''Data entries'',
      yticks_ticks = [0, 1, 2, 3, 4, 5, 6, 7, 8, 9, 10, 11, 12, 13, 14, 15, 16, 17, 18, 19],
      yticks_labels = replicate 15 (Some ''Manager''),
      colorbar_label = ''Topic activations''\<rparr>"

section \<open>Properties\<close>

subsection \<open>Series and frames\<close>

lemma length_fillna: "length (fillna s other) = length s"
  by (induction s other rule: fillna.induct) simp_all

lemma nth_fillna:
  "i < length s \<Longrightarrow> i < length other \<Longrightarrow>
   fillna s other ! i = (case s ! i of None \<Rightarrow> other ! i | Some a \<Rightarrow> Some a)"
proof (induction s other arbitrary: i rule: fillna.induct)
  case (3 v vs w ws)
  then show ?case by (cases i) (simp_all split: option.splits)
qed simp_all

lemma reindex_same: "length s = n \<Longrightarrow> reindex n s = s"
  by (auto simp: reindex_def intro: nth_equalityI)

lemma length_reindex: "length (reindex n s) = n"
  by (simp add: reindex_def)

lemma map_fst_assign:
  "name \<in> set (map fst cs) \<Longrightarrow> map fst (assign name s cs) = map fst cs"
proof (induction cs)
  case (Cons a cs)
  then show ?case by (cases a) (auto simp: image_iff)
qed simp

lemma map_of_assign_same: "map_of (assign name s cs) name = Some s"
  by (induction cs) auto

lemma map_of_assign_other: "n \<noteq> name \<Longrightarrow> map_of (assign name s cs) n = map_of cs n"
  by (induction cs) auto

lemma map_of_filter_keep: "P n \<Longrightarrow> map_of (filter (\<lambda>(m, c). P m) cs) n = map_of cs n"
  by (induction cs) auto

lemma map_of_filter_gone: "\<not> P n \<Longrightarrow> map_of (filter (\<lambda>(m, c). P m) cs) n = None"
  by (induction cs) auto

lemma getitem_Inr: "getitem X name = Inr s \<longleftrightarrow> map_of (cols X) name = Some s"
  by (simp add: getitem_def split: option.splits)

lemma getitem_in_names: "getitem X name = Inr s \<Longrightarrow> name \<in> set (column_names X)"
  by (auto simp: getitem_Inr column_names_def dest: map_of_SomeD intro: rev_image_eqI)

lemma wf_frame_length: "wf_frame X \<Longrightarrow> getitem X name = Inr s \<Longrightarrow> length s = nrows X"
  by (auto simp: wf_frame_def getitem_Inr list_all_iff dest: map_of_SomeD)

lemma map_fst_filter_names:
  "map fst (filter (\<lambda>(n, c). P n) cs) = filter P (map fst cs)"
  by (induction cs) auto

lemma list_all_assign:
  "list_all Q cs \<Longrightarrow> Q (name, s) \<Longrightarrow> list_all Q (assign name s cs)"
  by (induction cs) auto

subsection \<open>Preprocessing\<close>

text \<open>When both columns exist the two statements succeed, and this is the table they leave.\<close>

lemma preprocess_result:
  assumes "getitem X ''underfilled_job_title'' = Inr secondary"
      and "getitem X ''employee_position_title'' = Inr primary"
  shows "preprocess X =
           Inr (X\<lparr>cols := filter (\<lambda>(n, c). n \<noteq> ''underfilled_job_title'')
                  (assign ''employee_position_title''
                     (reindex (nrows X) (fillna secondary primary)) (cols X))\<rparr>)"
proof -
  have "''underfilled_job_title'' \<in> set (map fst (cols X))"
    using getitem_in_names [OF assms(1)] by (simp add: column_names_def)
  moreover have "''employee_position_title'' \<in> set (map fst (cols X))"
    using getitem_in_names [OF assms(2)] by (simp add: column_names_def)
  ultimately show ?thesis
    using assms
    by (simp add: preprocess_def and_then_def drop_columns_def setitem_def column_names_def
        map_fst_assign)
qed

lemma preprocess_InrD:
  assumes "preprocess X = Inr X'"
  obtains secondary primary where
    "getitem X ''underfilled_job_title'' = Inr secondary"
    "getitem X ''employee_position_title'' = Inr primary"
  using assms by (auto simp: preprocess_def and_then_def split: sum.splits)

lemma merged_column:
  assumes "wf_frame X"
      and "getitem X ''underfilled_job_title'' = Inr secondary"
      and "getitem X ''employee_position_title'' = Inr primary"
  shows "\<exists>X'. preprocess X = Inr X'
           \<and> getitem X' ''employee_position_title'' = Inr (fillna secondary primary)"
proof -
  let ?m = "fillna secondary primary"
  have "length secondary = nrows X"
    using assms wf_frame_length by blast
  then have lm: "length ?m = nrows X" by (simp add: length_fillna)
  have "getitem (X\<lparr>cols := filter (\<lambda>(n, c). n \<noteq> ''underfilled_job_title'')
                  (assign ''employee_position_title''
                     (reindex (nrows X) ?m) (cols X))\<rparr>) ''employee_position_title'' = Inr ?m"
    by (simp add: getitem_Inr map_of_filter_keep map_of_assign_same reindex_same lm)
  then show ?thesis
    using preprocess_result [OF assms(2,3)] by simp
qed

lemma preprocess_example: "preprocess example_table = Inr example_merged"
  by (simp add: example_table_def example_merged_def preprocess_def and_then_def getitem_def
      setitem_def drop_columns_def column_names_def reindex_def upt_rec)

text \<open>
  C1, as stated, fails: in row 0 of the example table the primary column holds
  \<open>Manager\<close> and the secondary column holds \<open>Sr. Manager\<close>; after the preprocessing the
  merged column holds \<open>Sr. Manager\<close> in row 0, so a present primary value was overwritten.
\<close>

theorem overlay_overwrites_present_primary:
  "getitem example_table ''employee_position_title''
       = Inr [Some ''Manager'', None, Some ''Clerk'']
   \<and> getitem example_table ''underfilled_job_title''
       = Inr [Some ''Sr. Manager'', Some ''Firefighter'', None]
   \<and> preprocess example_table =
       Inr \<lparr>nrows = 3,
            cols = [(''department'', [Some ''POL'', Some ''FRS'', Some ''HHS'']),
                    (''employee_position_title'',
                     [Some ''Sr. Manager'', Some ''Firefighter'', Some ''Clerk''])]\<rparr>"
  by (simp add: example_table_def preprocess_def and_then_def getitem_def setitem_def
      drop_columns_def column_names_def reindex_def upt_rec)

text \<open>
  C1, amended: for every row of a well-formed feature table that has both columns, the
  merged column keeps the primary value where the primary is present and the secondary is
  missing, and takes the secondary value where the primary is missing and the secondary is
  present.
\<close>

theorem overlay_fills_missing_primary:
  assumes "wf_frame X"
      and "getitem X ''underfilled_job_title'' = Inr secondary"
      and "getitem X ''employee_position_title'' = Inr primary"
      and "i < nrows X"
  shows "\<exists>X' merged. preprocess X = Inr X'
           \<and> getitem X' ''employee_position_title'' = Inr merged
           \<and> (primary ! i \<noteq> None \<and> secondary ! i = None \<longrightarrow> merged ! i = primary ! i)
           \<and> (primary ! i = None \<and> secondary ! i \<noteq> None \<longrightarrow> merged ! i = secondary ! i)"
proof -
  let ?m = "fillna secondary primary"
  have ls: "length secondary = nrows X" and lp: "length primary = nrows X"
    using assms wf_frame_length by blast+
  have "?m ! i = (case secondary ! i of None \<Rightarrow> primary ! i | Some v \<Rightarrow> Some v)"
    using assms(4) ls lp by (simp add: nth_fillna)
  then have "primary ! i \<noteq> None \<and> secondary ! i = None \<longrightarrow> ?m ! i = primary ! i"
    and "primary ! i = None \<and> secondary ! i \<noteq> None \<longrightarrow> ?m ! i = secondary ! i"
    by (auto split: option.splits)
  then show ?thesis
    using merged_column [OF assms(1,2,3)] by auto
qed

theorem overlay_fills_missing_primary_witness:
  "wf_frame example_table
   \<and> preprocess example_table = Inr example_merged
   \<and> getitem example_merged ''employee_position_title''
       = Inr [Some ''Sr. Manager'', Some ''Firefighter'', Some ''Clerk'']
   \<and> getitem example_table ''employee_position_title'' = Inr [Some ''Manager'', None, Some ''Clerk'']
   \<and> getitem example_table ''underfilled_job_title''
       = Inr [Some ''Sr. Manager'', Some ''Firefighter'', None]"
proof -
  have wf: "wf_frame example_table"
    by (simp add: wf_frame_def column_names_def example_table_def)
  have s: "getitem example_table ''underfilled_job_title''
             = Inr [Some ''Sr. Manager'', Some ''Firefighter'', None]"
    and p: "getitem example_table ''employee_position_title''
             = Inr [Some ''Manager'', None, Some ''Clerk'']"
    by (simp_all add: getitem_def example_table_def)
  have n1: "1 < nrows example_table" and n2: "2 < nrows example_table"
    by (simp_all add: example_table_def)
  obtain X1 m1 where
    r1: "preprocess example_table = Inr X1" "getitem X1 ''employee_position_title'' = Inr m1"
      "m1 ! 1 = Some ''Firefighter''"
    using overlay_fills_missing_primary [OF wf s p n1] by auto
  obtain X2 m2 where
    r2: "preprocess example_table = Inr X2" "getitem X2 ''employee_position_title'' = Inr m2"
      "m2 ! 2 = Some ''Clerk''"
    using overlay_fills_missing_primary [OF wf s p n2] by auto
  have "X1 = example_merged"
    using r1(1) preprocess_example by simp
  then have "getitem example_merged ''employee_position_title''
               = Inr [Some ''Sr. Manager'', Some ''Firefighter'', Some ''Clerk'']"
    by (simp add: example_merged_def getitem_def)
  then show ?thesis
    using wf s p preprocess_example by simp
qed

text \<open>
  C2: for every row of a well-formed feature table that has both columns, the merged
  \<^verbatim>\<open>employee_position_title\<close> is the secondary value wherever the secondary is present,
  whatever the primary holds, and the primary value only where the secondary is missing.
\<close>

theorem overlay_takes_secondary_first:
  assumes "wf_frame X"
      and "getitem X ''underfilled_job_title'' = Inr secondary"
      and "getitem X ''employee_position_title'' = Inr primary"
      and "i < nrows X"
  shows "\<exists>X' merged. preprocess X = Inr X'
           \<and> getitem X' ''employee_position_title'' = Inr merged
           \<and> length merged = nrows X
           \<and> merged ! i = (case secondary ! i of Some v \<Rightarrow> Some v | None \<Rightarrow> primary ! i)"
proof -
  let ?m = "fillna secondary primary"
  have ls: "length secondary = nrows X" and lp: "length primary = nrows X"
    using assms wf_frame_length by blast+
  have "length ?m = nrows X" by (simp add: length_fillna ls)
  moreover have "?m ! i = (case secondary ! i of Some v \<Rightarrow> Some v | None \<Rightarrow> primary ! i)"
    using assms(4) ls lp by (simp add: nth_fillna split: option.splits)
  ultimately show ?thesis
    using merged_column [OF assms(1,2,3)] by auto
qed

theorem overlay_takes_secondary_first_witness:
  "\<exists>X' merged. preprocess example_table = Inr X'
     \<and> getitem X' ''employee_position_title'' = Inr merged
     \<and> length merged = 3
     \<and> merged ! 0 = Some ''Sr. Manager''"
proof -
  have wf: "wf_frame example_table"
    by (simp add: wf_frame_def column_names_def example_table_def)
  have s: "getitem example_table ''underfilled_job_title''
             = Inr [Some ''Sr. Manager'', Some ''Firefighter'', None]"
    and p: "getitem example_table ''employee_position_title''
             = Inr [Some ''Manager'', None, Some ''Clerk'']"
    by (simp_all add: getitem_def example_table_def)
  have n: "0 < nrows example_table" and "nrows example_table = 3"
    by (simp_all add: example_table_def)
  then show ?thesis
    using overlay_takes_secondary_first [OF wf s p n] by simp
qed

text \<open>
  C8: after the preprocessing the name \<^verbatim>\<open>underfilled_job_title\<close> is no column of the table
  and the other names stand in their old order; the row index is the one before, and a
  table with one cell per row and column stays one; every column other than the two
  job-title columns is read as before.
\<close>

theorem preprocess_frame:
  assumes "preprocess X = Inr X'"
  shows "''underfilled_job_title'' \<notin> set (column_names X')
         \<and> column_names X' = filter (\<lambda>n. n \<noteq> ''underfilled_job_title'') (column_names X)
         \<and> nrows X' = nrows X
         \<and> (wf_frame X \<longrightarrow> wf_frame X')
         \<and> (\<forall>n. n \<noteq> ''underfilled_job_title'' \<and> n \<noteq> ''employee_position_title''
               \<longrightarrow> getitem X' n = getitem X n)"
proof -
  obtain secondary primary where
    s: "getitem X ''underfilled_job_title'' = Inr secondary" and
    p: "getitem X ''employee_position_title'' = Inr primary"
    using assms by (rule preprocess_InrD)
  let ?m = "reindex (nrows X) (fillna secondary primary)"
  let ?cs = "filter (\<lambda>(n, c). n \<noteq> ''underfilled_job_title'')
               (assign ''employee_position_title'' ?m (cols X))"
  have X': "X' = X\<lparr>cols := ?cs\<rparr>"
    using preprocess_result [OF s p] assms by simp
  have pin: "''employee_position_title'' \<in> set (map fst (cols X))"
    using getitem_in_names [OF p] by (simp add: column_names_def)
  have names: "column_names X' = filter (\<lambda>n. n \<noteq> ''underfilled_job_title'') (column_names X)"
    by (simp add: X' column_names_def map_fst_filter_names map_fst_assign [OF pin])
  have absent: "''underfilled_job_title'' \<notin> set (column_names X')"
    by (simp add: names)
  have rows: "nrows X' = nrows X"
    by (simp add: X')
  have wf: "wf_frame X'" if "wf_frame X"
  proof -
    have "list_all (\<lambda>(n, c). length c = nrows X) (assign ''employee_position_title'' ?m (cols X))"
      using that by (intro list_all_assign) (simp_all add: wf_frame_def length_reindex)
    then have "list_all (\<lambda>(n, c). length c = nrows X) ?cs"
      by (simp add: list_all_iff)
    moreover have "distinct (column_names X')"
      using that by (simp add: names wf_frame_def)
    ultimately show ?thesis
      by (simp add: wf_frame_def X' rows)
  qed
  have others: "getitem X' n = getitem X n"
    if "n \<noteq> ''underfilled_job_title'' \<and> n \<noteq> ''employee_position_title''" for n
    using that by (simp add: X' getitem_def map_of_filter_keep map_of_assign_other)
  show ?thesis
    using names absent rows wf others by blast
qed

theorem preprocess_frame_witness:
  "preprocess example_table = Inr example_merged
   \<and> column_names example_table
       = [''department'', ''employee_position_title'', ''underfilled_job_title'']
   \<and> column_names example_merged = [''department'', ''employee_position_title'']
   \<and> nrows example_merged = 3 \<and> nrows example_table = 3
   \<and> wf_frame example_table \<and> wf_frame example_merged
   \<and> getitem example_merged ''department'' = getitem example_table ''department''"
proof -
  have wf: "wf_frame example_table"
    by (simp add: wf_frame_def column_names_def example_table_def)
  have "column_names example_table
          = [''department'', ''employee_position_title'', ''underfilled_job_title'']"
    and "nrows example_table = 3"
    by (simp_all add: column_names_def example_table_def)
  then show ?thesis
    using preprocess_frame [OF preprocess_example] wf preprocess_example by simp
qed

subsection \<open>The encoder\<close>

lemma length_to_numpy: "length (to_numpy X) = nrows X"
  by (simp add: to_numpy_def)

lemma length_encode_rows: "length (encode_rows G k m X) = nrows X"
  by (simp add: encode_rows_def length_to_numpy)

lemma encode_rows_width: "list_all (\<lambda>row. length row = k) (encode_rows G k m X)"
  by (simp add: encode_rows_def list_all_iff)

lemma nrows_slice_rows: "nrows (slice_rows k X) = min k (nrows X)"
  by (simp add: slice_rows_def)

lemma fit_transform_InrD:
  assumes "fit_transform G enc X = Inr (enc', M)"
  obtains m where "factorize G (n_components enc) (random_state enc) (to_numpy X) = Inr m"
    "enc' = enc\<lparr>fitted := Some m\<rparr>" "M = encode_rows G (n_components enc) m X"
  using assms by (auto simp: fit_transform_def and_then_def split: sum.splits)

lemma get_feature_names_out_length:
  "get_feature_names_out G enc k = Inr ls \<Longrightarrow> length ls = n_components enc"
  by (auto simp: get_feature_names_out_def split: option.splits)

lemma labels_example:
  "get_feature_names_out stub_internals example_encoder 3 = Inr example_labels"
  by code_simp

text \<open>
  C4: for a column of \<open>N \<ge> 1\<close> rows and an encoder configured with
  \<open>n_components \<ge> 1\<close>, whenever the fit itself succeeds \<^verbatim>\<open>fit_transform\<close> returns a matrix
  of exactly \<open>N\<close> rows, each of exactly \<open>n_components\<close> columns; \<^verbatim>\<open>transform\<close> of the
  fitted encoder on the first \<open>b\<close> rows returns a matrix of exactly the rows of that sample,
  \<open>min b N\<close>, each of \<open>n_components\<close> columns.
\<close>

theorem encoded_matrix_shape:
  assumes "1 \<le> nrows X" and "1 \<le> n_components enc"
      and "factorize G (n_components enc) (random_state enc) (to_numpy X) = Inr m"
  shows "\<exists>M M'. fit_transform G enc X = Inr (enc\<lparr>fitted := Some m\<rparr>, M)
           \<and> length M = nrows X
           \<and> list_all (\<lambda>row. length row = n_components enc) M
           \<and> transform G (enc\<lparr>fitted := Some m\<rparr>) (slice_rows b X) = Inr M'
           \<and> length M' = min b (nrows X)
           \<and> list_all (\<lambda>row. length row = n_components enc) M'"
  using assms(3)
  by (simp add: fit_transform_def transform_def and_then_def length_encode_rows
      encode_rows_width nrows_slice_rows)

theorem encoded_matrix_shape_witness:
  "1 \<le> nrows example_dirty \<and> 1 \<le> n_components (GapEncoder 10 42 :: cell list list gap_encoder)
   \<and> (\<exists>M M'. fit_transform stub_internals (GapEncoder 10 42) example_dirty
                 = Inr (example_encoder, M)
          \<and> length M = 3 \<and> list_all (\<lambda>row. length row = 10) M
          \<and> transform stub_internals example_encoder (slice_rows 20 example_dirty) = Inr M'
          \<and> length M' = 3 \<and> list_all (\<lambda>row. length row = 10) M')"
  using encoded_matrix_shape [of example_dirty "GapEncoder 10 42" stub_internals
      "[[Some ''Sr. Manager''], [Some ''Firefighter''], [Some ''Clerk'']]" 20]
  by (simp add: example_dirty_def GapEncoder_def stub_internals_def example_encoder_def
      to_numpy_def upt_rec)

text \<open>
  C5: for every \<open>k \<ge> 1\<close>, \<^verbatim>\<open>get_feature_names_out(n_labels=k)\<close> of a fitted encoder returns
  exactly \<open>n_components\<close> label-groups, the group at position \<open>t\<close> being that of topic
  \<open>t\<close>, each an ordered sequence of exactly \<open>k\<close> strings.
\<close>

theorem label_summary_shape:
  assumes "1 \<le> k" and "fitted enc = Some m"
  shows "\<exists>groups. get_feature_names_out G enc k = Inr groups
           \<and> length groups = n_components enc
           \<and> list_all (\<lambda>g. length g = k) groups
           \<and> (\<forall>t<n_components enc. groups ! t = map (ranked_label G m t) [0..<k])"
  using assms(2) by (simp add: get_feature_names_out_def list_all_iff)

theorem label_summary_shape_witness:
  "(1::nat) \<le> 3
   \<and> fitted example_encoder
       = Some [[Some ''Sr. Manager''], [Some ''Firefighter''], [Some ''Clerk'']]
   \<and> get_feature_names_out stub_internals example_encoder 3 = Inr example_labels
   \<and> length example_labels = 10
   \<and> list_all (\<lambda>g. length g = 3) example_labels
   \<and> example_labels ! 0 = [''0.0'', ''0.1'', ''0.2'']"
proof -
  have f: "fitted example_encoder
       = Some [[Some ''Sr. Manager''], [Some ''Firefighter''], [Some ''Clerk'']]"
    by (simp add: example_encoder_def)
  obtain groups where
    g: "get_feature_names_out stub_internals example_encoder 3 = Inr groups"
       "length groups = n_components example_encoder"
       "list_all (\<lambda>g. length g = 3) groups"
    using label_summary_shape [of 3 example_encoder _ stub_internals, OF _ f] by auto
  have "groups = example_labels"
    using g(1) labels_example by simp
  moreover have "n_components example_encoder = 10"
    by (simp add: example_encoder_def)
  moreover have "example_labels ! 0 = [''0.0'', ''0.1'', ''0.2'']"
    by (simp add: example_labels_def)
  ultimately show ?thesis
    using f g labels_example by simp
qed

subsection \<open>The script as a whole\<close>

lemma script_Inr:
  assumes "script C G = Inr st"
  shows "fit_transform G (GapEncoder 10 42) (v_X_dirty st) = Inr (v_enc st, v_X_enc st)"
    and "get_feature_names_out G (v_enc st) 3 = Inr (v_topic_labels st)"
    and "visualize G (v_enc st) (v_topic_labels st) (v_X_dirty st) = Inr (v_figure st)"
    and "v_stdout st = print_topics (str_labels C) (List.enumerate 0 (v_topic_labels st)) []"
  using assms
  by (auto simp: script_def and_then_def split: sum.splits prod.splits)

lemma script_example: "script example_collaborators stub_internals = Inr example_globals"
  by code_simp

subsection \<open>Reporting the topics\<close>

lemma print_topics_eq:
  "print_topics str ps out = out @ map (\<lambda>(k, labels). topic_line str k labels) ps"
  by (induction str ps out rule: print_topics.induct) simp_all

lemma print_topics_enumerate:
  "print_topics str (List.enumerate 0 ls) []
     = map (\<lambda>k. topic_line str k (ls ! k)) [0..<length ls]"
  by (auto simp: print_topics_eq enumerate_eq_zip intro: nth_equalityI)

text \<open>
  C6: when the script has run, the lines it printed are exactly one per latent topic of its
  encoder, in topic order from index \<open>0\<close>, line \<open>k\<close> being \<^verbatim>\<open>Topic n\<close>, the degree sign,
  the decimal index \<open>k\<close>, a colon and a space, and the text of the label-group that the
  same fitted encoder returned for topic \<open>k\<close>.
\<close>

theorem topic_lines:
  assumes "script C G = Inr st"
  shows "get_feature_names_out G (v_enc st) 3 = Inr (v_topic_labels st)
         \<and> length (v_stdout st) = length (v_topic_labels st)
         \<and> length (v_stdout st) = n_components (v_enc st)
         \<and> (\<forall>k<n_components (v_enc st).
               v_stdout st ! k =
                 ''Topic n'' @ [CHR 0xB0] @ str_nat k @ '': ''
                   @ str_labels C (v_topic_labels st ! k))"
proof -
  have labels: "get_feature_names_out G (v_enc st) 3 = Inr (v_topic_labels st)"
    and out: "v_stdout st = print_topics (str_labels C) (List.enumerate 0 (v_topic_labels st)) []"
    using script_Inr [OF assms] by simp_all
  have n: "length (v_topic_labels st) = n_components (v_enc st)"
    using labels by (rule get_feature_names_out_length)
  have "v_stdout st =
          map (\<lambda>k. topic_line (str_labels C) k (v_topic_labels st ! k))
            [0..<n_components (v_enc st)]"
    by (simp add: out print_topics_enumerate n)
  then show ?thesis
    using labels n by (simp add: topic_line_def)
qed

theorem topic_lines_witness:
  "script example_collaborators stub_internals = Inr example_globals
   \<and> get_feature_names_out stub_internals example_encoder 3 = Inr example_labels
   \<and> length example_lines = 10
   \<and> example_lines ! 3 = ''Topic n'' @ [CHR 0xB0] @ ''3: '' @ comma_join (example_labels ! 3)"
proof -
  have "v_enc example_globals = example_encoder"
    and "v_topic_labels example_globals = example_labels"
    and "v_stdout example_globals = example_lines"
    and "n_components example_encoder = 10"
    and "str_labels example_collaborators = comma_join"
    by (simp_all add: example_globals_def example_encoder_def example_collaborators_def)
  moreover have "str_nat 3 = ''3''"
    by (simp add: str_nat.simps)
  ultimately show ?thesis
    using topic_lines [OF script_example] script_example by simp
qed

subsection \<open>Drawing the activations\<close>

lemma to_numpy_single:
  assumes "cols X = [(name, col)]" and "length col = nrows X"
  shows "to_numpy X = map (\<lambda>v. [v]) col"
  using assms by (auto simp: to_numpy_def intro: nth_equalityI)

lemma flatten_single:
  assumes "cols X = [(name, col)]" and "length col = nrows X"
  shows "flatten (to_numpy X) = col"
  by (simp add: to_numpy_single [OF assms] flatten_def)

lemma slice_rows_single:
  assumes "cols X = [(name, col)]" and "length col = nrows X"
  shows "cols (slice_rows k X) = [(name, take k col)]"
    and "length (take k col) = nrows (slice_rows k X)"
  using assms by (simp_all add: slice_rows_def min.commute)

lemma visualize_InrD:
  assumes "visualize G enc ls X = Inr fig"
  shows "transform G enc (slice_rows 20 X) = Inr (imshow fig)"
    and "xticks_ticks fig = [0..<10]" and "xticks_labels fig = ls"
  using assms by (auto simp: visualize_def and_then_def split: sum.splits)

text \<open>
  With matplotlib as the plotting library, a sample of at least one row is drawn when the
  column has twenty rows or more, and is refused when it has fewer: the matrix and the row
  labels are clipped to the rows there are, the twenty tick positions are not.
\<close>

lemma visualize_then_matplotlib:
  assumes "fitted enc = Some m"
      and "cols X_dirty = [(name, col)]" and "length col = nrows X_dirty"
      and "1 \<le> nrows X_dirty" and "length topic_labels = 10"
  shows "and_then (visualize G enc topic_labels X_dirty) matplotlib_pyplot
           = (if 20 \<le> nrows X_dirty then Inr () else Inl (ValueError 20 (nrows X_dirty)))"
proof -
  let ?S = "slice_rows 20 X_dirty"
  have single: "cols ?S = [(name, take 20 col)]" "length (take 20 col) = nrows ?S"
    using slice_rows_single [OF assms(2,3)] by simp_all
  have labels: "flatten (to_numpy ?S) = take 20 col"
    using single by (rule flatten_single)
  have "take 20 col \<noteq> []"
    using assms(3,4) by (cases col) auto
  moreover have "length (take 20 col) = min 20 (nrows X_dirty)"
    using assms(3) by (simp add: min.commute)
  ultimately show ?thesis
    using assms(1,5)
    by (auto simp: visualize_def transform_def and_then_def labels matplotlib_pyplot_def
        set_ticklabels_def)
qed

lemma twenty_rows_drawn: "\<not> isl (script twenty_collaborators stub_internals)"
  by code_simp

text \<open>
  C3: the claim does not hold of the script. For a feature table of fifteen rows the slice
  clips the sample to fifteen rows, so the encoded matrix has fifteen rows and fifteen row
  labels are handed over; but line 101 asks for the twenty tick positions \<open>0..19\<close>, the
  plotting library refuses twenty positions with fifteen labels, and the script ends with
  that \<^verbatim>\<open>ValueError\<close> instead of a vertical axis of fifteen ticks.
\<close>

theorem short_column_raises:
  "nrows fifteen_table = 15
   \<and> and_then (preprocess fifteen_table)
        (\<lambda>X. getitem_list X [''employee_position_title'']) = Inr fifteen_rows
   \<and> fit_transform stub_internals (GapEncoder 10 42) fifteen_rows
        = Inr (fifteen_encoder, replicate 15 [1, 0, 0, 0, 0, 0, 0, 0, 0, 0])
   \<and> get_feature_names_out stub_internals fifteen_encoder 3 = Inr example_labels
   \<and> nrows (slice_rows 20 fifteen_rows) = 15
   \<and> visualize stub_internals fifteen_encoder example_labels fifteen_rows = Inr fifteen_figure
   \<and> length (imshow fifteen_figure) = 15
   \<and> length (yticks_labels fifteen_figure) = 15
   \<and> length (yticks_ticks fifteen_figure) = 20
   \<and> matplotlib_pyplot fifteen_figure = Inl (ValueError 20 15)
   \<and> script fifteen_collaborators stub_internals = Inl (ValueError 20 15)"
  by code_simp

text \<open>
  C7: when the script has run, the label-groups printed by the reporter and the labels on
  the horizontal axis are one and the same list, returned by the encoder that also produced
  the image; the axis has the tick positions \<open>0..n_components - 1\<close>, as many as there are
  labels and printed lines, and position \<open>k\<close> carries the label-group that line \<open>k\<close>
  reports under index \<open>k\<close>.
\<close>

theorem axis_and_report_agree:
  assumes "script C G = Inr st"
  shows "get_feature_names_out G (v_enc st) 3 = Inr (v_topic_labels st)
         \<and> transform G (v_enc st) (slice_rows 20 (v_X_dirty st)) = Inr (imshow (v_figure st))
         \<and> xticks_labels (v_figure st) = v_topic_labels st
         \<and> xticks_ticks (v_figure st) = [0..<n_components (v_enc st)]
         \<and> length (xticks_labels (v_figure st)) = length (xticks_ticks (v_figure st))
         \<and> length (v_stdout st) = length (xticks_ticks (v_figure st))
         \<and> (\<forall>k<length (xticks_ticks (v_figure st)).
               xticks_ticks (v_figure st) ! k = k
               \<and> v_stdout st ! k
                   = topic_line (str_labels C) k (xticks_labels (v_figure st) ! k))"
proof -
  have fit: "fit_transform G (GapEncoder 10 42) (v_X_dirty st) = Inr (v_enc st, v_X_enc st)"
    and labels: "get_feature_names_out G (v_enc st) 3 = Inr (v_topic_labels st)"
    and fig: "visualize G (v_enc st) (v_topic_labels st) (v_X_dirty st) = Inr (v_figure st)"
    and out: "v_stdout st = print_topics (str_labels C) (List.enumerate 0 (v_topic_labels st)) []"
    using script_Inr [OF assms] by simp_all
  have ten: "n_components (v_enc st) = 10"
    using fit by (auto elim!: fit_transform_InrD simp: GapEncoder_def)
  have n: "length (v_topic_labels st) = 10"
    using get_feature_names_out_length [OF labels] ten by simp
  have lines: "v_stdout st =
      map (\<lambda>k. topic_line (str_labels C) k (v_topic_labels st ! k)) [0..<10]"
    by (simp add: out print_topics_enumerate n)
  show ?thesis
    using labels visualize_InrD [OF fig] ten n lines by simp
qed

theorem axis_and_report_agree_witness:
  "script example_collaborators stub_internals = Inr example_globals
   \<and> xticks_labels example_figure = example_labels
   \<and> xticks_ticks example_figure = [0..<10]
   \<and> length example_labels = 10
   \<and> length example_lines = 10
   \<and> xticks_ticks example_figure ! 3 = 3
   \<and> example_lines ! 3 = topic_line comma_join 3 (example_labels ! 3)"
proof -
  have "v_enc example_globals = example_encoder"
    and "v_topic_labels example_globals = example_labels"
    and "v_stdout example_globals = example_lines"
    and "v_figure example_globals = example_figure"
    and "n_components example_encoder = 10"
    and "str_labels example_collaborators = comma_join"
    by (simp_all add: example_globals_def example_encoder_def example_collaborators_def)
  then show ?thesis
    using axis_and_report_agree [OF script_example] script_example by auto
qed

subsection \<open>Failures\<close>

text \<open>
  C10: the script ends with an error \<open>e\<close> exactly when one of the calls it makes, in the
  order it makes them, raised \<open>e\<close> after all earlier calls had returned: the dataset
  provider, the two column reads and the drop of the preprocessing, the selection of the
  dirty column, the fit, the label summary, the transform of the sample, the plotting
  library. The error is passed on as it is; no call is made again and no value stands in
  for a failed one.
\<close>

theorem failures_propagate:
  "script C G = Inl e \<longleftrightarrow>
     fetch_employee_salaries C = Inl e
   \<or> (\<exists>dataset. fetch_employee_salaries C = Inr dataset \<and>
        (preprocess (ds_X dataset) = Inl e
       \<or> (\<exists>X. preprocess (ds_X dataset) = Inr X \<and>
            (getitem_list X [''employee_position_title''] = Inl e
           \<or> (\<exists>X_dirty. getitem_list X [''employee_position_title''] = Inr X_dirty \<and>
                (fit_transform G (GapEncoder 10 42) X_dirty = Inl e
               \<or> (\<exists>enc X_enc. fit_transform G (GapEncoder 10 42) X_dirty = Inr (enc, X_enc) \<and>
                    (get_feature_names_out G enc 3 = Inl e
                   \<or> (\<exists>topic_labels. get_feature_names_out G enc 3 = Inr topic_labels \<and>
                        (visualize G enc topic_labels X_dirty = Inl e
                       \<or> (\<exists>fig. visualize G enc topic_labels X_dirty = Inr fig
                             \<and> pyplot C fig = Inl e)))))))))))"
  by (auto simp: script_def and_then_def split: sum.splits prod.splits)

theorem failures_propagate_witness:
  "fetch_employee_salaries failing_collaborators = Inl (Raised ''dataset not found'')
   \<and> script failing_collaborators stub_internals = Inl (Raised ''dataset not found'')"
  using failures_propagate [of failing_collaborators stub_internals "Raised ''dataset not found''"]
  by (simp add: failing_collaborators_def)

end
